theory Spec2Isabelle
  imports Main
begin

section \<open>The file system as the commands see it\<close>

text \<open>
  The three commands of ely-tools (\<open>ds\<close>, \<open>exec\<close>, \<open>pack\<close>) reach the file system only
  through \<open>fs.existsSync\<close>, \<open>fs.statSync\<close> and \<open>fs.readdirSync\<close>. The model is a tree: what
  a path denotes is a node, and a function of the source that takes a path takes here the
  path (a list of names, \<open>path.join(dirPath, item)\<close> appends one) together with the node
  the path denotes.

  \<^item> \<open>File n\<close>: a regular file of \<open>n\<close> bytes (\<open>stats.size\<close>);
  \<^item> \<open>Dir items\<close>: a directory, \<open>readdirSync\<close> returns the names of \<open>items\<close> in this order;
  \<^item> \<open>Unlistable msg items\<close>: a directory (\<open>statSync\<close> succeeds, \<open>isDirectory()\<close> is true)
    whose \<open>readdirSync\<close> throws an error with message \<open>msg\<close> (no read permission); \<open>items\<close>
    are the entries a path through it still reaches (the directory may be searchable);
  \<^item> \<open>Unstatable msg\<close>: an entry whose \<open>statSync\<close> throws (a dangling symbolic link, an
    entry below a directory without search permission).

  Sizes are natural numbers: the sums of the source are exact below \<open>2^53\<close>, and the
  rounding of larger doubles is not modelled. A string is a list of code units below 256.
\<close>

type_synonym path = "string list"

datatype fsnode =
    File nat
  | Dir "(string \<times> fsnode) list"
  | Unlistable string "(string \<times> fsnode) list"
  | Unstatable string

datatype stats = Stats (isDirectory: bool) (st_size: nat)

text \<open>\<open>fs.statSync\<close>: the size of a directory's own inode is never read by the code.\<close>

fun statSync :: "fsnode \<Rightarrow> string + stats" where
  "statSync (File n) = Inr (Stats False n)"
| "statSync (Dir items) = Inr (Stats True 0)"
| "statSync (Unlistable msg items) = Inr (Stats True 0)"
| "statSync (Unstatable msg) = Inl msg"

text \<open>\<open>fs.readdirSync\<close>: the entries of a directory, an exception for anything else.\<close>

fun readdirSync :: "fsnode \<Rightarrow> string + (string \<times> fsnode) list" where
  "readdirSync (Dir items) = Inr items"
| "readdirSync (File n) = Inl ''ENOTDIR: not a directory''"
| "readdirSync (Unlistable msg items) = Inl msg"
| "readdirSync (Unstatable msg) = Inl msg"

text \<open>\<open>fs.existsSync\<close> of a path that denotes \<open>Some\<close> node, or nothing at all.\<close>

fun existsSync :: "fsnode option \<Rightarrow> bool" where
  "existsSync None = False"
| "existsSync (Some (Unstatable msg)) = False"
| "existsSync (Some n) = True"

section \<open>Console output\<close>

text \<open>
  What the commands print is a list of events, one per \<open>console.log\<close>, \<open>console.warn\<close> or
  \<open>console.error\<close> call, in the order of the calls. A constructor stands for the template
  string of the source and carries the values interpolated into it; the elapsed time of
  the closing lines is left out.
\<close>

datatype channel = Log | Warn | Error

datatype message =
    CannotReadDirectory path string
  | CannotAccess path string
  | ErrorReadingDirectory path string
  | TopDirectoriesBySize int
  | RankedLine nat nat string string
  | DirectoryDoesNotExist string
  | IsNotADirectory string
  | ScanningDirectory path
  | MaxDepthIs int
  | CommandIs string
  | PackageIs string
  | BlankLine
  | TotalDirectorySize string
  | ScanCompleted
  | ErrorMessage string
  | FoundDirectoriesToProcess nat
  | Processing path
  | ResultsHeader
  | Succeeded path
  | FailedIn path
  | IndentedError string
  | IndentedOutput string
  | Summary string
  | Completed
  | RemovingTarballs nat
  | Removed string
  | NoTarballsToRemove
  | CouldNotRemoveTarballs string
  | Running string
  | ErrorFindingTarball string
  | ErrorCopyingToClipboard string
  | BuildingAndPackingIn path
  | BuildingProject
  | BuildFailed
  | BuildCompleted
  | PackingProject
  | PackFailed
  | PackCompleted
  | FindingLatestTarball
  | NoTarballFound
  | FoundTarball string
  | CopiedToClipboard path
  | TarballPath path
  | PackCommandCompleted
  | ErrorText string

type_synonym console = "(channel \<times> message) list"

section \<open>Directory sizes (\<open>ds\<close>)\<close>

subsection \<open>formatBytes\<close>

text \<open>Decimal digits of a natural number, as \<open>Number.prototype.toString\<close> prints an integer.\<close>

fun showNat :: "nat \<Rightarrow> string" where
  "showNat n = (if n < 10 then [''0123456789'' ! n]
                else showNat (n div 10) @ [''0123456789'' ! (n mod 10)])"

declare showNat.simps [simp del]

definition k_base :: nat where
  "k_base = 1024"

definition sizes :: "string list" where
  "sizes = [''B'', ''KB'', ''MB'', ''GB'', ''TB'']"

text \<open>The integer logarithm to the base 1024: the largest \<open>i\<close> with \<open>1024 ^ i \<le> bytes\<close>.\<close>

fun exactLogK :: "nat \<Rightarrow> nat" where
  "exactLogK bytes = (if bytes < 1024 then 0 else Suc (exactLogK (bytes div 1024)))"

declare exactLogK.simps [simp del]

text \<open>
  \<open>Math.floor(Math.log(bytes) / Math.log(k))\<close> for \<open>bytes > 0\<close> (\<open>k_base\<close> is the source's
  \<open>k\<close>). The quotient is computed in doubles. For the three byte counts below \<open>1024 ^ 5\<close>
  the logarithm rounds to that of \<open>1024 ^ 5\<close> and the quotient is exactly 5; for every other
  byte count below \<open>2 ^ 53\<close> the floor of the quotient is taken to be the integer
  logarithm (the quotient is an integer at the powers of 1024, and next to the lower
  powers the doubles still tell the logarithms apart).
\<close>

definition floorLogK :: "nat \<Rightarrow> nat" where
  "floorLogK bytes =
     (if 1024 ^ 5 - 3 \<le> bytes \<and> bytes < 1024 ^ 5 then 5 else exactLogK bytes)"

text \<open>
  \<open>(bytes / Math.pow(k, i)).toFixed(2)\<close>: the number of hundredths \<open>n\<close> for which
  \<open>n / 100\<close> is nearest to the quotient, the larger \<open>n\<close> on a tie. The division by a power
  of two is exact in a double, and \<open>toFixed\<close> rounds the exact value.
\<close>

definition toFixed2 :: "nat \<Rightarrow> nat \<Rightarrow> nat" where
  "toFixed2 bytes d = (2 * 100 * bytes + d) div (2 * d)"

text \<open>
  \<open>parseFloat(s) + ' '\<close> for the \<open>toFixed(2)\<close> string of \<open>n\<close> hundredths: the number is
  printed without trailing zeros in the fraction.
\<close>

definition showHundredths :: "nat \<Rightarrow> string" where
  "showHundredths n =
     (if n mod 100 = 0 then showNat (n div 100)
      else if n mod 10 = 0 then showNat (n div 100) @ ''.'' @ showNat (n mod 100 div 10)
      else showNat (n div 100) @ ''.'' @ showNat (n mod 100 div 10) @ showNat (n mod 10))"

text \<open>\<open>sizes[i]\<close> in a template: past the end of the array the value is \<open>undefined\<close>.\<close>

definition sizesAt :: "nat \<Rightarrow> string" where
  "sizesAt i = (if i < length sizes then sizes ! i else ''undefined'')"

definition formatBytes :: "nat \<Rightarrow> string" where
  "formatBytes bytes =
     (if bytes = 0 then ''0 B''
      else let i = floorLogK bytes
           in showHundredths (toFixed2 bytes (k_base ^ i)) @ '' '' @ sizesAt i)"

subsection \<open>getSize\<close>

text \<open>
  \<open>getSize\<close> returns what it printed and either the exception that left it (\<open>Inl\<close>) or the
  size. \<open>getSizeLoop\<close> is the \<open>for\<close> loop inside the \<open>try\<close>: it returns the running
  \<open>totalSize\<close> and, when a recursive call threw, the exception that ended the loop.
\<close>

fun getSize :: "path \<Rightarrow> fsnode \<Rightarrow> console \<times> (string + nat)"
  and getSizeLoop :: "path \<Rightarrow> (string \<times> fsnode) list \<Rightarrow> nat \<Rightarrow> console \<times> nat \<times> string option"
where
  "getSize filePath (Unstatable msg) = ([], Inl msg)"
| "getSize filePath (File n) = ([], Inr n)"
| "getSize filePath (Unlistable msg items) =
     ([(Warn, CannotReadDirectory filePath msg)], Inr 0)"
| "getSize filePath (Dir items) =
     (case getSizeLoop filePath items 0 of
        (out, totalSize, None) \<Rightarrow> (out, Inr totalSize)
      | (out, totalSize, Some msg) \<Rightarrow>
          (out @ [(Warn, CannotReadDirectory filePath msg)], Inr totalSize))"
| "getSizeLoop filePath [] totalSize = ([], totalSize, None)"
| "getSizeLoop filePath ((item, child) # rest) totalSize =
     (case getSize (filePath @ [item]) child of
        (out, Inl msg) \<Rightarrow> (out, totalSize, Some msg)
      | (out, Inr n) \<Rightarrow>
          (case getSizeLoop filePath rest (totalSize + n) of
             (out', r) \<Rightarrow> (out @ out', r)))"

subsection \<open>listDirectoryContents\<close>

record DirectoryItem =
  name :: string
  path :: path
  relativePath :: path
  size_bytes :: nat
  depth :: nat

text \<open>
  \<open>Array.prototype.sort(comparefn)\<close> is a stable sort (ECMAScript 2019): the model is
  the insertion sort that puts an element before the first one it does not compare
  greater than.
\<close>

fun insertBy :: "('a \<Rightarrow> 'a \<Rightarrow> int) \<Rightarrow> 'a \<Rightarrow> 'a list \<Rightarrow> 'a list" where
  "insertBy cmp x [] = [x]"
| "insertBy cmp x (y # ys) = (if cmp x y \<le> 0 then x # y # ys else y # insertBy cmp x ys)"

definition sortBy :: "('a \<Rightarrow> 'a \<Rightarrow> int) \<Rightarrow> 'a list \<Rightarrow> 'a list" where
  "sortBy cmp xs = foldr (insertBy cmp) xs []"

text \<open>\<open>xs.slice(0, end)\<close>: a negative \<open>end\<close> counts from the end of the array.\<close>

definition slice0 :: "'a list \<Rightarrow> int \<Rightarrow> 'a list" where
  "slice0 xs end =
     (let len = int (length xs);
          final = (if end < 0 then max (len + end) 0 else min end len)
      in take (nat final) xs)"

text \<open>The comparator of the source, \<open>(a, b) => b.size - a.size\<close>.\<close>

definition bySizeDescending :: "DirectoryItem \<Rightarrow> DirectoryItem \<Rightarrow> int" where
  "bySizeDescending a b = int (size_bytes b) - int (size_bytes a)"

text \<open>The \<open>forEach\<close> that prints the ranked lines, \<open>rank\<close> being \<open>index + 1\<close>.\<close>

fun rankedLines :: "nat \<Rightarrow> DirectoryItem list \<Rightarrow> console" where
  "rankedLines index [] = []"
| "rankedLines index (dir # dirs) =
     (Log, RankedLine (index + 1) (depth dir) (name dir) (formatBytes (size_bytes dir)))
       # rankedLines (index + 1) dirs"

text \<open>
  \<open>listDirectoryContents\<close> with its \<open>for\<close> loop \<open>listLoop\<close>, which returns the
  \<open>directories\<close> array it has filled. The node is what \<open>dirPath\<close> denotes.
\<close>

function (sequential) listDirectoryContents ::
    "path \<Rightarrow> fsnode \<Rightarrow> string \<Rightarrow> int \<Rightarrow> nat \<Rightarrow> int \<Rightarrow> console \<times> DirectoryItem list"
  and listLoop ::
    "path \<Rightarrow> (string \<times> fsnode) list \<Rightarrow> string \<Rightarrow> int \<Rightarrow> nat \<Rightarrow> int \<Rightarrow> console \<times> DirectoryItem list"
where
  "listDirectoryContents dirPath node prefix maxDepth currentDepth topCount =
     (if int currentDepth > maxDepth then ([], [])
      else
        (case (case readdirSync node of
                 Inl msg \<Rightarrow> ([(Error, ErrorReadingDirectory dirPath msg)], [])
               | Inr items \<Rightarrow> listLoop dirPath items prefix maxDepth currentDepth topCount)
         of (out, directories) \<Rightarrow>
           if currentDepth = 0 then
             (let topDirectories = slice0 (sortBy bySizeDescending directories) topCount
              in (out @ [(Log, TopDirectoriesBySize topCount)] @ rankedLines 0 topDirectories,
                  topDirectories))
           else (out, directories)))"
| "listLoop dirPath [] prefix maxDepth currentDepth topCount = ([], [])"
| "listLoop dirPath ((item, child) # rest) prefix maxDepth currentDepth topCount =
     (let itemPath = dirPath @ [item] in
      case (case statSync child of
              Inl msg \<Rightarrow> ([(Warn, CannotAccess itemPath msg)], [])
            | Inr st \<Rightarrow>
                if isDirectory st then
                  (case getSize itemPath child of
                     (outSize, Inl msg) \<Rightarrow> (outSize @ [(Warn, CannotAccess itemPath msg)], [])
                   | (outSize, Inr sz) \<Rightarrow>
                       (case listDirectoryContents itemPath child prefix maxDepth
                               (currentDepth + 1) topCount
                        of (outSub, subDirectories) \<Rightarrow>
                          (outSize @ outSub,
                           \<lparr>name = item, path = itemPath, relativePath = [item],
                            size_bytes = sz, depth = currentDepth\<rparr> # subDirectories)))
                else ([], []))
      of (out, found) \<Rightarrow>
        (case listLoop dirPath rest prefix maxDepth currentDepth topCount of
           (out', found') \<Rightarrow> (out @ out', found @ found')))"
  by pat_completeness auto

termination listDirectoryContents
  by (relation "measure (case_sum (\<lambda>(dirPath, node, rest). 2 * size node)
                  (\<lambda>(dirPath, items, rest). 2 * size_list (size_prod (\<lambda>x. 0) size) items + 1))")
     (auto elim!: readdirSync.elims)

section \<open>Running a command in every subdirectory (\<open>exec\<close>)\<close>

subsection \<open>getSubdirectories\<close>

definition skipDirs :: "string list" where
  "skipDirs = [''node_modules'', ''.git'', ''.next'', ''dist'', ''build'']"

text \<open>
  \<open>getSubdirectories\<close> and its \<open>for\<close> loop. A directory of the result is its path
  together with the node the path denotes.
\<close>

function (sequential) getSubdirectories ::
    "path \<Rightarrow> fsnode \<Rightarrow> int \<Rightarrow> nat \<Rightarrow> console \<times> (path \<times> fsnode) list"
  and subdirLoop ::
    "path \<Rightarrow> (string \<times> fsnode) list \<Rightarrow> int \<Rightarrow> nat \<Rightarrow> console \<times> (path \<times> fsnode) list"
where
  "getSubdirectories dirPath node maxDepth currentDepth =
     (if int currentDepth > maxDepth then ([], [])
      else
        (case readdirSync node of
           Inl msg \<Rightarrow> ([(Warn, CannotReadDirectory dirPath msg)], [])
         | Inr items \<Rightarrow> subdirLoop dirPath items maxDepth currentDepth))"
| "subdirLoop dirPath [] maxDepth currentDepth = ([], [])"
| "subdirLoop dirPath ((item, child) # rest) maxDepth currentDepth =
     (let itemPath = dirPath @ [item] in
      case (case statSync child of
              Inl msg \<Rightarrow> ([], [])
            | Inr st \<Rightarrow>
                if isDirectory st then
                  (if item \<notin> set skipDirs then
                     (case getSubdirectories itemPath child maxDepth (currentDepth + 1) of
                        (out, subDirs) \<Rightarrow> (out, (itemPath, child) # subDirs))
                   else ([], []))
                else ([], []))
      of (out, found) \<Rightarrow>
        (case subdirLoop dirPath rest maxDepth currentDepth of
           (out', found') \<Rightarrow> (out @ out', found @ found')))"
  by pat_completeness auto

termination getSubdirectories
  by (relation "measure (case_sum (\<lambda>(dirPath, node, rest). 2 * size node)
                  (\<lambda>(dirPath, items, rest). 2 * size_list (size_prod (\<lambda>x. 0) size) items + 1))")
     (auto elim!: readdirSync.elims)

text \<open>
  What \<open>path.join(dirPath, item)\<close> denotes when \<open>dirPath\<close> denotes \<open>node\<close>: an entry of a
  directory is reached by its name whether or not the directory can be listed.
\<close>

fun entry :: "fsnode \<Rightarrow> string \<Rightarrow> fsnode option" where
  "entry (Dir items) item = map_of items item"
| "entry (Unlistable msg items) item = map_of items item"
| "entry node item = None"

text \<open>\<open>hasPackageJson\<close>: \<open>fs.existsSync(path.join(dirPath, 'package.json'))\<close>.\<close>

definition hasPackageJson :: "path \<times> fsnode \<Rightarrow> bool" where
  "hasPackageJson dir = existsSync (entry (snd dir) ''package.json'')"

subsection \<open>executeCommand\<close>

text \<open>
  \<open>execSync\<close> either returns the standard output of the command or throws an error that
  carries \<open>stdout\<close> (which may be \<open>undefined\<close>) and a \<open>message\<close>. What a command does is
  outside the program: the commands take \<open>execSync\<close> as a parameter, a function of the
  command line and of the working directory (\<open>None\<close> when no \<open>cwd\<close> is passed).
\<close>

datatype execOutcome = Returned string | Threw "string option" string

type_synonym execSync = "string \<Rightarrow> path option \<Rightarrow> execOutcome"

record ExecutionResult =
  success :: bool
  output_text :: string
  error :: "string option"

text \<open>
  \<open>String.prototype.trim\<close>: the white space and line terminators of ECMAScript among the
  code units below 256 (tab, line feed, vertical tab, form feed, carriage return, space
  and the no-break space U+00A0).
\<close>

definition isWhiteSpace :: "char \<Rightarrow> bool" where
  "isWhiteSpace c =
     (c \<in> set [CHR 0x09, CHR 0x0A, CHR 0x0B, CHR 0x0C, CHR 0x0D, CHR '' '', CHR 0xA0])"

definition trim :: "string \<Rightarrow> string" where
  "trim s = rev (dropWhile isWhiteSpace (rev (dropWhile isWhiteSpace s)))"

text \<open>\<open>a || b\<close> on values that are a string or \<open>undefined\<close>: the empty string is falsy.\<close>

definition truthy :: "string option \<Rightarrow> bool" where
  "truthy v = (case v of None \<Rightarrow> False | Some s \<Rightarrow> s \<noteq> [])"

definition executeCommand :: "execSync \<Rightarrow> string \<Rightarrow> path \<Rightarrow> ExecutionResult" where
  "executeCommand run command dirPath =
     (case run command (Some dirPath) of
        Returned stdout \<Rightarrow> \<lparr>success = True, output_text = trim stdout, error = None\<rparr>
      | Threw stdout msg \<Rightarrow>
          (let errorOutput = (case stdout of None \<Rightarrow> msg | Some s \<Rightarrow> if s \<noteq> [] then s else msg)
           in \<lparr>success = False, output_text = trim errorOutput, error = Some msg\<rparr>))"

subsection \<open>Dispatch and display\<close>

text \<open>\<open>output.split('\\n').map(line => `   ${line}`).join('\\n')\<close>.\<close>

definition indent :: "string \<Rightarrow> string" where
  "indent s = ''   '' @ concat (map (\<lambda>c. if c = CHR 0x0A then CHR 0x0A # ''   '' else [c]) s)"

text \<open>The loop that runs the command in each target directory, in order.\<close>

fun processAll ::
    "execSync \<Rightarrow> string \<Rightarrow> path \<Rightarrow> (path \<times> fsnode) list \<Rightarrow> console \<times> (path \<times> path \<times> ExecutionResult) list"
where
  "processAll run command absolutePath [] = ([], [])"
| "processAll run command absolutePath (dir # dirs) =
     (let relPath = drop (length absolutePath) (fst dir);
          result = executeCommand run command (fst dir)
      in case processAll run command absolutePath dirs of
           (out, results) \<Rightarrow>
             ((Log, Processing relPath) # out, (fst dir, relPath, result) # results))"

text \<open>
  The \<open>forEach\<close> that prints the results and counts them: the state is
  \<open>(successCount, failureCount)\<close>.
\<close>

fun displayResults ::
    "(path \<times> path \<times> ExecutionResult) list \<Rightarrow> nat \<times> nat \<Rightarrow> console \<times> nat \<times> nat"
where
  "displayResults [] (successCount, failureCount) = ([], successCount, failureCount)"
| "displayResults ((d, relPath, result) # results) (successCount, failureCount) =
     (if success result then
        (case displayResults results (successCount + 1, failureCount) of
           (out, counts) \<Rightarrow>
             ([(Log, Succeeded relPath)]
              @ (if output_text result \<noteq> [] then [(Log, IndentedOutput (indent (output_text result)))] else [])
              @ [(Log, BlankLine)] @ out, counts))
      else
        (case displayResults results (successCount, failureCount + 1) of
           (out, counts) \<Rightarrow>
             ([(Log, FailedIn relPath)]
              @ (case error result of
                   None \<Rightarrow> []
                 | Some msg \<Rightarrow> if msg \<noteq> [] then [(Log, IndentedError msg)] else [])
              @ (if output_text result \<noteq> [] then [(Log, IndentedOutput (indent (output_text result)))] else [])
              @ [(Log, BlankLine)] @ out, counts)))"

text \<open>The text of the summary line after its emoji.\<close>

definition summaryText :: "nat \<Rightarrow> nat \<Rightarrow> string" where
  "summaryText successCount failureCount =
     ''Summary: '' @ showNat successCount @ '' successful, '' @ showNat failureCount @ '' failed''"

section \<open>Build, pack and copy (\<open>pack\<close>)\<close>

text \<open>
  Between the steps of \<open>pack\<close> the external commands change the directory, so each
  read of it is a parameter of its own: the listing before the build and the result of
  each \<open>unlinkSync\<close> (\<open>Some msg\<close> when it throws), the listing after \<open>pnpm pack\<close>, and
  the modification time \<open>statSync\<close> reports for a file of that listing.
\<close>

record PackFiles =
  readdirBefore :: "string + string list"
  unlinkSync :: "string \<Rightarrow> string option"
  readdirAfter :: "string + string list"
  mtime :: "string \<Rightarrow> string + int"

definition endsWith :: "string \<Rightarrow> string \<Rightarrow> bool" where
  "endsWith s suffix =
     (length suffix \<le> length s \<and> drop (length s - length suffix) s = suffix)"

text \<open>The \<open>forEach\<close> of \<open>removeTarballs\<close>: the first \<open>unlinkSync\<close> that throws ends it.\<close>

fun unlinkAll :: "PackFiles \<Rightarrow> string list \<Rightarrow> console" where
  "unlinkAll files [] = []"
| "unlinkAll files (file # rest) =
     (case unlinkSync files file of
        Some msg \<Rightarrow> [(Warn, CouldNotRemoveTarballs msg)]
      | None \<Rightarrow> (Log, Removed file) # unlinkAll files rest)"

definition removeTarballs :: "PackFiles \<Rightarrow> console" where
  "removeTarballs files =
     (case readdirBefore files of
        Inl msg \<Rightarrow> [(Warn, CouldNotRemoveTarballs msg)]
      | Inr listing \<Rightarrow>
          (let tgzFiles = filter (\<lambda>file. endsWith file ''.tgz'') listing
           in if length tgzFiles > 0
              then (Log, RemovingTarballs (length tgzFiles)) # unlinkAll files tgzFiles
              else [(Log, NoTarballsToRemove)]))"

text \<open>The \<open>executeCommand\<close> of \<open>pack-command.ts\<close>, which announces the command first.\<close>

definition executeCommandPack :: "execSync \<Rightarrow> string \<Rightarrow> path \<Rightarrow> console \<times> ExecutionResult" where
  "executeCommandPack run command dir =
     ([(Log, Running command)],
      (case run command (Some dir) of
         Returned stdout \<Rightarrow> \<lparr>success = True, output_text = trim stdout, error = None\<rparr>
       | Threw stdout msg \<Rightarrow>
           (let errorOutput = (case stdout of None \<Rightarrow> msg | Some s \<Rightarrow> if s \<noteq> [] then s else msg)
            in \<lparr>success = False, output_text = trim errorOutput, error = Some msg\<rparr>)))"

text \<open>
  \<open>findLatestTarball\<close>. The comparator calls \<open>statSync\<close>, and a sort of two or more
  elements compares every one of them: a file whose \<open>statSync\<close> throws ends the function
  in its \<open>catch\<close> (the message printed is taken from the first such file). A single
  file is returned without a comparison.
\<close>

definition mtimeValue :: "PackFiles \<Rightarrow> string \<Rightarrow> int" where
  "mtimeValue files file = (case mtime files file of Inl msg \<Rightarrow> 0 | Inr t \<Rightarrow> t)"

definition findLatestTarball :: "PackFiles \<Rightarrow> path \<Rightarrow> console \<times> path option" where
  "findLatestTarball files dir =
     (case readdirAfter files of
        Inl msg \<Rightarrow> ([(Error, ErrorFindingTarball msg)], None)
      | Inr listing \<Rightarrow>
          (let tgzFiles = filter (\<lambda>file. endsWith file ''.tgz'') listing
           in if length tgzFiles = 0 then ([], None)
              else
                (case (if length tgzFiles < 2 then []
                       else filter (\<lambda>file. isl (mtime files file)) tgzFiles) of
                   bad # others \<Rightarrow>
                     ([(Error, ErrorFindingTarball (projl (mtime files bad)))], None)
                 | [] \<Rightarrow>
                     (case sortBy (\<lambda>a b. mtimeValue files b - mtimeValue files a) tgzFiles of
                        [] \<Rightarrow> ([(Error, ErrorFindingTarball ''TypeError'')], None)
                      | latest # others \<Rightarrow> ([], Some (dir @ [latest]))))))"

text \<open>An absolute path as the string that is interpolated into the shell command.\<close>

definition pathString :: "path \<Rightarrow> string" where
  "pathString p = (if p = [] then ''/'' else concat (map (\<lambda>item. CHR ''/'' # item) p))"

definition copyToClipboard :: "execSync \<Rightarrow> string \<Rightarrow> console \<times> bool" where
  "copyToClipboard run txt =
     (case run (''echo '' @ [CHR 0x22] @ txt @ [CHR 0x22] @ '' | pbcopy'') None of
        Returned stdout \<Rightarrow> ([], True)
      | Threw stdout msg \<Rightarrow> ([(Error, ErrorCopyingToClipboard msg)], False))"

section \<open>The handlers\<close>

text \<open>
  The world of a command: what a path string of the command line denotes
  (\<open>None\<close> when nothing is there) and what \<open>path.resolve\<close> makes of it.
\<close>

record world =
  lookup :: "string \<Rightarrow> fsnode option"
  resolve :: "string \<Rightarrow> path"

text \<open>
  The option objects of \<open>types.ts\<close>. A field name is one constant in HOL, so the
  interfaces that share \<open>directory\<close> and \<open>maxDepth\<close> are extensions of one another;
  \<open>None\<close> is a property that is \<open>undefined\<close>.
\<close>

record PackCommandOptions =
  directory :: "string option"

record DepthOptions = PackCommandOptions +
  maxDepth :: "int option"

record GetDirectorySizesOptions = DepthOptions +
  topCount :: "int option"

record ExecCommandOptions = DepthOptions +
  exec :: string
  packageName :: "string option"

text \<open>A destructuring default applies when the property is \<open>undefined\<close>.\<close>

definition orDefault :: "'a option \<Rightarrow> 'a \<Rightarrow> 'a" where
  "orDefault v d = (case v of None \<Rightarrow> d | Some x \<Rightarrow> x)"

subsection \<open>getDirectorySizes\<close>

text \<open>\<open>directories.reduce((sum, dir) => sum + dir.size, 0)\<close>.\<close>

definition totalSizeOf :: "DirectoryItem list \<Rightarrow> nat" where
  "totalSizeOf directories = foldl (\<lambda>sum dir. sum + size_bytes dir) 0 directories"

text \<open>
  The handler of \<open>ds\<close>: what it prints and the boolean it returns. The elapsed time of
  the last line is not part of the model.
\<close>

definition getDirectorySizes :: "world \<Rightarrow> GetDirectorySizesOptions \<Rightarrow> console \<times> bool" where
  "getDirectorySizes w options =
     (let dir = orDefault (directory options) ''.'';
          maxD = orDefault (maxDepth options) 2;
          topC = orDefault (topCount options) 10
      in if \<not> existsSync (lookup w dir) then ([(Error, DirectoryDoesNotExist dir)], False)
         else
           (case lookup w dir of
              None \<Rightarrow> ([(Error, ErrorMessage ''ENOENT: no such file or directory'')], False)
            | Some node \<Rightarrow>
                (case statSync node of
                   Inl msg \<Rightarrow> ([(Error, ErrorMessage msg)], False)
                 | Inr st \<Rightarrow>
                     if \<not> isDirectory st then ([(Error, IsNotADirectory dir)], False)
                     else
                       (let absolutePath = resolve w dir in
                        case listDirectoryContents absolutePath node [] maxD 0 topC of
                          (out, directories) \<Rightarrow>
                            (let totalSize = totalSizeOf directories
                             in ([(Log, ScanningDirectory absolutePath), (Log, MaxDepthIs maxD),
                                  (Log, BlankLine)]
                                 @ out
                                 @ [(Log, TotalDirectorySize (formatBytes totalSize)),
                                    (Log, BlankLine), (Log, ScanCompleted)],
                                 True))))))"

subsection \<open>execCommand\<close>

text \<open>
  The directories the command is dispatched to: \<open>targetDirectories\<close> of the source.
\<close>

definition targetDirectories ::
    "path \<Rightarrow> fsnode \<Rightarrow> int \<Rightarrow> string option \<Rightarrow> (path \<times> fsnode) list" where
  "targetDirectories absolutePath node maxD pkg =
     (let subdirectories = snd (getSubdirectories absolutePath node maxD 0)
      in if truthy pkg then filter hasPackageJson subdirectories else subdirectories)"

text \<open>The handler of \<open>exec\<close>: what it prints and the boolean it returns.\<close>

definition execCommand :: "world \<Rightarrow> execSync \<Rightarrow> ExecCommandOptions \<Rightarrow> console \<times> bool" where
  "execCommand w run options =
     (let dir = orDefault (directory options) ''.'';
          maxD = orDefault (maxDepth options) 2
      in if \<not> existsSync (lookup w dir) then ([(Error, DirectoryDoesNotExist dir)], False)
         else
           (case lookup w dir of
              None \<Rightarrow> ([(Error, ErrorMessage ''ENOENT: no such file or directory'')], False)
            | Some node \<Rightarrow>
                (case statSync node of
                   Inl msg \<Rightarrow> ([(Error, ErrorMessage msg)], False)
                 | Inr st \<Rightarrow>
                     if \<not> isDirectory st then ([(Error, IsNotADirectory dir)], False)
                     else
                       (let absolutePath = resolve w dir;
                            targets = targetDirectories absolutePath node maxD (packageName options)
                        in case processAll run (exec options) absolutePath targets of
                             (outRun, results) \<Rightarrow>
                               (case displayResults results (0, 0) of
                                  (outShow, successCount, failureCount) \<Rightarrow>
                                    ([(Log, ScanningDirectory absolutePath), (Log, MaxDepthIs maxD),
                                      (Log, CommandIs (exec options))]
                                     @ (if truthy (packageName options)
                                        then [(Log, PackageIs (orDefault (packageName options) []))]
                                        else [])
                                     @ [(Log, BlankLine)]
                                     @ fst (getSubdirectories absolutePath node maxD 0)
                                     @ [(Log, FoundDirectoriesToProcess (length targets))]
                                     @ outRun
                                     @ [(Log, ResultsHeader)]
                                     @ outShow
                                     @ [(Log, Summary (summaryText successCount failureCount)),
                                        (Log, Completed)],
                                     True))))))"

subsection \<open>packCommand\<close>

text \<open>\<open>result.error || result.output\<close>.\<close>

definition errorOrOutput :: "ExecutionResult \<Rightarrow> string" where
  "errorOrOutput result = (if truthy (error result) then orDefault (error result) [] else output_text result)"

text \<open>
  Steps 2 to 4 of the handler, after the path has been validated and the old tarballs
  removed: build, pack, find the tarball, copy its path.
\<close>

definition buildPackCopy :: "PackFiles \<Rightarrow> execSync \<Rightarrow> path \<Rightarrow> console \<times> bool" where
  "buildPackCopy files run absolutePath =
     (case executeCommandPack run ''pnpm run build'' absolutePath of
        (outBuild, buildResult) \<Rightarrow>
          if \<not> success buildResult then
            ([(Log, BuildingProject)] @ outBuild
             @ [(Error, BuildFailed), (Error, ErrorText (errorOrOutput buildResult))], False)
          else
            (case executeCommandPack run ''pnpm pack'' absolutePath of
               (outPack, packResult) \<Rightarrow>
                 if \<not> success packResult then
                   ([(Log, BuildingProject)] @ outBuild
                    @ [(Log, BuildCompleted), (Log, BlankLine), (Log, PackingProject)] @ outPack
                    @ [(Error, PackFailed), (Error, ErrorText (errorOrOutput packResult))], False)
                 else
                   (case findLatestTarball files absolutePath of
                      (outFind, found) \<Rightarrow>
                        (let before =
                               [(Log, BuildingProject)] @ outBuild
                               @ [(Log, BuildCompleted), (Log, BlankLine), (Log, PackingProject)]
                               @ outPack
                               @ [(Log, PackCompleted), (Log, BlankLine), (Log, FindingLatestTarball)]
                               @ outFind
                         in case found of
                              None \<Rightarrow> (before @ [(Error, NoTarballFound)], False)
                            | Some tarballPath \<Rightarrow>
                                (case copyToClipboard run (pathString tarballPath) of
                                   (outCopy, copied) \<Rightarrow>
                                     (before @ [(Log, FoundTarball (last tarballPath))] @ outCopy
                                      @ [if copied then (Log, CopiedToClipboard tarballPath)
                                         else (Log, TarballPath tarballPath)]
                                      @ [(Log, BlankLine), (Log, PackCommandCompleted)],
                                      True))))))"

text \<open>The handler of \<open>pack\<close>: what it prints and the boolean it returns.\<close>

definition packCommand ::
    "world \<Rightarrow> PackFiles \<Rightarrow> execSync \<Rightarrow> PackCommandOptions \<Rightarrow> console \<times> bool" where
  "packCommand w files run options =
     (let dir = orDefault (directory options) ''.''
      in if \<not> existsSync (lookup w dir) then ([(Error, DirectoryDoesNotExist dir)], False)
         else
           (case lookup w dir of
              None \<Rightarrow> ([(Error, ErrorMessage ''ENOENT: no such file or directory'')], False)
            | Some node \<Rightarrow>
                (case statSync node of
                   Inl msg \<Rightarrow> ([(Error, ErrorMessage msg)], False)
                 | Inr st \<Rightarrow>
                     if \<not> isDirectory st then ([(Error, IsNotADirectory dir)], False)
                     else
                       (let absolutePath = resolve w dir in
                        case buildPackCopy files run absolutePath of
                          (out, ok) \<Rightarrow>
                            ([(Log, BuildingAndPackingIn absolutePath), (Log, BlankLine)]
                             @ removeTarballs files @ [(Log, BlankLine)] @ out, ok)))))"

section \<open>Auxiliary notions for the properties\<close>

text \<open>
  The \<open>directories\<close> array of the root call of \<open>listDirectoryContents\<close> as it stands when
  the loop is over, before it is sorted and cut: the nodes the walk has discovered, in
  pre-order.
\<close>

definition discovered :: "path \<Rightarrow> fsnode \<Rightarrow> string \<Rightarrow> int \<Rightarrow> int \<Rightarrow> DirectoryItem list" where
  "discovered dirPath node prefix maxD topC =
     (if 0 > maxD then []
      else case readdirSync node of
             Inl msg \<Rightarrow> []
           | Inr items \<Rightarrow> snd (listLoop dirPath items prefix maxD 0 topC))"

text \<open>
  A node found by a walk of \<open>dirPath\<close> that started at depth \<open>cur\<close>: its depth lies between
  \<open>cur\<close> and \<open>maxD\<close>, and its path is that many names below \<open>dirPath\<close>.
\<close>

definition placed :: "path \<Rightarrow> int \<Rightarrow> nat \<Rightarrow> DirectoryItem \<Rightarrow> bool" where
  "placed dirPath maxD cur d =
     (cur \<le> depth d \<and> int (depth d) \<le> maxD \<and>
      length (path d) = length dirPath + (depth d - cur) + 1)"


subsection \<open>Sample trees\<close>

text \<open>The tree \<open>root/{a/(file 100B), b/{c/(file 200B)}}\<close> and its three directory nodes.\<close>

definition scenarioTree :: fsnode where
  "scenarioTree =
     Dir [(''a'', Dir [(''f'', File 100)]),
          (''b'', Dir [(''c'', Dir [(''g'', File 200)])])]"

definition item_a :: DirectoryItem where
  "item_a = \<lparr>name = ''a'', path = [''root'', ''a''], relativePath = [''a''],
             size_bytes = 100, depth = 0\<rparr>"

definition item_b :: DirectoryItem where
  "item_b = \<lparr>name = ''b'', path = [''root'', ''b''], relativePath = [''b''],
             size_bytes = 200, depth = 0\<rparr>"

definition item_c :: DirectoryItem where
  "item_c = \<lparr>name = ''c'', path = [''root'', ''b'', ''c''], relativePath = [''c''],
             size_bytes = 200, depth = 1\<rparr>"

text \<open>The same tree with one more level below \<open>c\<close>.\<close>

definition deepTree :: fsnode where
  "deepTree =
     Dir [(''a'', Dir [(''f'', File 100)]),
          (''b'', Dir [(''c'', Dir [(''e'', Dir [(''g'', File 200)])])])]"

text \<open>
  A world in which the current directory is the sample tree, and the options of an
  invocation with \<open>--topCount 1\<close>.
\<close>

definition sampleWorld :: world where
  "sampleWorld = \<lparr>lookup = (\<lambda>s. if s = ''.'' then Some scenarioTree else None),
                   resolve = (\<lambda>s. [''root''])\<rparr>"

definition topOneOptions :: GetDirectorySizesOptions where
  "topOneOptions = \<lparr>directory = None, maxDepth = None, topCount = Some 1\<rparr>"

text \<open>
  A directory with two files and, between them, an entry that cannot be stat'ed (a dangling
  symbolic link), and the same directory with a subdirectory that cannot be listed instead.
\<close>

definition brokenLinkDir :: fsnode where
  "brokenLinkDir = Dir [(''f1'', File 100), (''L'', Unstatable ''ENOENT''), (''f2'', File 50)]"

definition lockedChildDir :: fsnode where
  "lockedChildDir =
     Dir [(''f1'', File 100), (''L'', Unlistable ''EACCES'' [(''g'', File 7)]), (''f2'', File 50)]"

subsection \<open>The directories a command is dispatched to, in the words of the specification\<close>

text \<open>A node that \<open>statSync\<close> reports as a directory.\<close>

definition isDirectoryNode :: "fsnode \<Rightarrow> bool" where
  "isDirectoryNode node = (case statSync node of Inl msg \<Rightarrow> False | Inr st \<Rightarrow> isDirectory st)"



text \<open>The targets of an \<open>exec\<close> invocation whose directory is \<open>node\<close>.\<close>

definition execTargets :: "world \<Rightarrow> fsnode \<Rightarrow> ExecCommandOptions \<Rightarrow> (path \<times> fsnode) list" where
  "execTargets w node options =
     targetDirectories (resolve w (orDefault (directory options) ''.'')) node
       (orDefault (maxDepth options) 2) (packageName options)"

text \<open>
  What the console of \<open>execCommand\<close> tells of the dispatch: the relative paths of the
  \<open>Processing\<close> lines, printed before the command is run in a directory, and those of the
  result lines, printed for every result that was recorded.
\<close>

definition processingOf :: "channel \<times> message \<Rightarrow> path list" where
  "processingOf e = (if fst e = Log then (case snd e of Processing p \<Rightarrow> [p] | _ \<Rightarrow> []) else [])"

definition processingLines :: "console \<Rightarrow> path list" where
  "processingLines out = concat (map processingOf out)"

definition resultOf :: "channel \<times> message \<Rightarrow> path list" where
  "resultOf e =
     (if fst e = Log then (case snd e of Succeeded p \<Rightarrow> [p] | FailedIn p \<Rightarrow> [p] | _ \<Rightarrow> [])
      else [])"

definition resultLines :: "console \<Rightarrow> path list" where
  "resultLines out = concat (map resultOf out)"

subsection \<open>Sample inputs of \<open>exec\<close> and \<open>pack\<close>\<close>




definition childrenOnly :: ExecCommandOptions where
  "childrenOnly = \<lparr>directory = None, maxDepth = Some 0, exec = ''npm test'', packageName = None\<rparr>"

definition failsInA :: execSync where
  "failsInA command cwd =
     (if cwd = Some [''root'', ''a'']
      then Threw (Some (''partial'' @ [CHR 0x0A])) ''Command failed: npm test''
      else Returned (''ok'' @ [CHR 0x0A]))"

definition alwaysFails :: execSync where
  "alwaysFails command cwd = Threw None ''Command failed''"

text \<open>
  A package directory after \<open>pnpm pack\<close> has written a tarball, on a machine without
  \<open>pbcopy\<close>.
\<close>

definition packFiles :: PackFiles where
  "packFiles = \<lparr>readdirBefore = Inr [''pkg-1.0.0.tgz'', ''package.json''],
                 unlinkSync = (\<lambda>file. None),
                 readdirAfter = Inr [''package.json'', ''pkg-1.0.1.tgz''],
                 mtime = (\<lambda>file. Inr 1000)\<rparr>"

definition noClipboard :: execSync where
  "noClipboard command cwd =
     (if cwd = None then Threw None ''pbcopy: command not found'' else Returned ''done'')"

section \<open>Properties of the directory walk\<close>

declare listDirectoryContents.simps [simp del]
declare getSubdirectories.simps [simp del]

text \<open>The equations that evaluate \<open>formatBytes\<close> on a numeral.\<close>

lemmas formatBytes_eval =
  formatBytes_def floorLogK_def exactLogK.simps showHundredths_def toFixed2_def showNat.simps sizesAt_def
  sizes_def k_base_def

subsection \<open>Sorting and slicing\<close>

lemma set_insertBy: "set (insertBy cmp x xs) = insert x (set xs)"
  by (induction xs) auto

lemma set_sortBy: "set (sortBy cmp xs) = set xs"
  by (induction xs) (auto simp: sortBy_def set_insertBy)

lemma length_insertBy: "length (insertBy cmp x xs) = Suc (length xs)"
  by (induction xs) auto

lemma length_sortBy: "length (sortBy cmp xs) = length xs"
  by (induction xs) (auto simp: sortBy_def length_insertBy)

lemma sortBy_Nil [simp]: "sortBy cmp [] = []"
  by (simp add: sortBy_def)

lemma slice0_Nil [simp]: "slice0 [] e = []"
  by (simp add: slice0_def)


lemma set_slice0: "set (slice0 xs e) \<subseteq> set xs"
  by (auto simp: slice0_def Let_def dest: in_set_takeD)

lemma slice0_all: "int (length xs) \<le> e \<Longrightarrow> slice0 xs e = xs"
  by (auto simp: slice0_def Let_def)

subsection \<open>The list a walk returns\<close>

lemma fsnode_induct [case_names File Unlistable Unstatable Dir]:
  assumes "\<And>n. P (File n)" "\<And>msg items. P (Unlistable msg items)" "\<And>msg. P (Unstatable msg)"
    and "\<And>items. (\<And>item child. (item, child) \<in> set items \<Longrightarrow> P child) \<Longrightarrow> P (Dir items)"
  shows "P node"
proof (induction node)
  case (Dir x)
  show ?case
  proof (rule assms(4))
    fix item child assume "(item, child) \<in> set x"
    then show "P child" using Dir[of "(item, child)" child] by simp
  qed
qed (simp_all add: assms)

lemma snd_listDirectoryContents:
  "snd (listDirectoryContents dirPath node prefix maxD cur topC) =
     (if int cur > maxD then []
      else let directories = (case readdirSync node of Inl msg \<Rightarrow> []
                              | Inr items \<Rightarrow> snd (listLoop dirPath items prefix maxD cur topC))
           in if cur = 0 then slice0 (sortBy bySizeDescending directories) topC else directories)"
  by (simp add: listDirectoryContents.simps Let_def split: sum.splits prod.splits)

lemma snd_listLoop_Nil: "snd (listLoop dirPath [] prefix maxD cur topC) = []"
  by simp

lemma snd_listLoop_Cons:
  "snd (listLoop dirPath ((item, child) # rest) prefix maxD cur topC) =
     (case statSync child of
        Inl msg \<Rightarrow> []
      | Inr st \<Rightarrow>
          if isDirectory st then
            (case snd (getSize (dirPath @ [item]) child) of
               Inl msg \<Rightarrow> []
             | Inr sz \<Rightarrow>
                 \<lparr>name = item, path = dirPath @ [item], relativePath = [item],
                  size_bytes = sz, depth = cur\<rparr>
                 # snd (listDirectoryContents (dirPath @ [item]) child prefix maxD (cur + 1) topC))
          else [])
     @ snd (listLoop dirPath rest prefix maxD cur topC)"
  by (simp add: Let_def split: sum.splits prod.splits)

lemmas walk_eval =
  snd_listDirectoryContents snd_listLoop_Cons snd_listLoop_Nil sortBy_def slice0_def
  bySizeDescending_def

lemma root_report:
  "snd (listDirectoryContents dirPath node prefix maxD 0 topC) =
     slice0 (sortBy bySizeDescending (discovered dirPath node prefix maxD topC)) topC"
  by (simp add: snd_listDirectoryContents discovered_def Let_def split: sum.splits)

subsection \<open>Depth of the nodes\<close>

lemma placed_item:
  "int cur \<le> maxD \<Longrightarrow>
   placed dirPath maxD cur \<lparr>name = item, path = dirPath @ [item], relativePath = [item],
                            size_bytes = sz, depth = cur\<rparr>"
  by (simp add: placed_def)

lemma placed_sub: "placed (dirPath @ [item]) maxD (cur + 1) d \<Longrightarrow> placed dirPath maxD cur d"
  by (auto simp: placed_def)

lemma listLoop_placed:
  assumes "\<And>item child p c. (item, child) \<in> set items \<Longrightarrow> 0 < c \<Longrightarrow>
             list_all (placed p maxD c) (snd (listDirectoryContents p child prefix maxD c topC))"
    and "int cur \<le> maxD"
  shows "list_all (placed dirPath maxD cur) (snd (listLoop dirPath items prefix maxD cur topC))"
  using assms
proof (induction items)
  case Nil
  then show ?case by simp
next
  case (Cons a items)
  obtain item child where a: "a = (item, child)" by (cases a)
  have "list_all (placed (dirPath @ [item]) maxD (cur + 1))
          (snd (listDirectoryContents (dirPath @ [item]) child prefix maxD (cur + 1) topC))"
    using Cons.prems(1)[of item child "cur + 1" "dirPath @ [item]"] a by simp
  then have sub: "list_all (placed dirPath maxD cur)
          (snd (listDirectoryContents (dirPath @ [item]) child prefix maxD (cur + 1) topC))"
    unfolding list_all_iff using placed_sub by blast
  have rest: "list_all (placed dirPath maxD cur) (snd (listLoop dirPath items prefix maxD cur topC))"
  proof (rule Cons.IH[OF _ Cons.prems(2)])
    fix item child p and c :: nat
    assume "(item, child) \<in> set items" "0 < c"
    then show "list_all (placed p maxD c) (snd (listDirectoryContents p child prefix maxD c topC))"
      using Cons.prems(1)[of item child c p] by simp
  qed
  show ?case
    using sub rest placed_item[OF Cons.prems(2), of dirPath item]
    by (simp add: a snd_listLoop_Cons del: listLoop.simps split: sum.splits)
qed

lemma walk_placed:
  "0 < cur \<Longrightarrow>
   list_all (placed dirPath maxD cur) (snd (listDirectoryContents dirPath node prefix maxD cur topC))"
proof (induction node arbitrary: dirPath cur rule: fsnode_induct)
  case (Dir items)
  show ?case
  proof (cases "int cur > maxD")
    case True
    then show ?thesis by (simp add: snd_listDirectoryContents)
  next
    case False
    then have le: "int cur \<le> maxD" by simp
    show ?thesis
      using listLoop_placed[where items=items and cur=cur and dirPath=dirPath and maxD=maxD
              and prefix=prefix and topC=topC, OF Dir.IH le] Dir.prems False
      by (simp add: snd_listDirectoryContents)
  qed
qed (simp_all add: snd_listDirectoryContents)

lemma discovered_placed:
  "list_all (placed dirPath maxD 0) (discovered dirPath node prefix maxD topC)"
proof (cases "0 > maxD")
  case True
  then show ?thesis by (simp add: discovered_def)
next
  case False
  then have le: "int 0 \<le> maxD" by simp
  show ?thesis
  proof (cases "readdirSync node")
    case (Inl msg)
    then show ?thesis by (simp add: discovered_def)
  next
    case (Inr items)
    have "list_all (placed dirPath maxD 0) (snd (listLoop dirPath items prefix maxD 0 topC))"
      by (rule listLoop_placed[OF _ le]) (rule walk_placed)
    then show ?thesis using Inr False by (simp add: discovered_def)
  qed
qed

text \<open>
  Claim C5. With \<open>maxDepth = 1\<close> no node of depth greater than 1 is in the result of the
  walk: a node returned by the root call has depth at most 1, and its depth field is the
  depth at which it was found, the number of directories between the scan root and it.
\<close>

theorem maxDepth_one_bounds_depth:
  "d \<in> set (snd (listDirectoryContents dirPath node prefix 1 0 topC)) \<Longrightarrow>
     depth d \<le> 1 \<and> length (path d) = length dirPath + depth d + 1"
proof -
  assume "d \<in> set (snd (listDirectoryContents dirPath node prefix 1 0 topC))"
  then have "d \<in> set (discovered dirPath node prefix 1 topC)"
    using set_slice0 by (fastforce simp: root_report set_sortBy)
  then have "placed dirPath 1 0 d"
    using discovered_placed[of dirPath 1 node prefix topC] unfolding list_all_iff by blast
  then show ?thesis by (simp add: placed_def)
qed

theorem maxDepth_one_bounds_depth_witness:
  "snd (listDirectoryContents [''root''] deepTree [] 1 0 10) = [item_b, item_c, item_a]
   \<and> depth item_c \<le> 1
   \<and> length (path item_c) = length [''root''] + depth item_c + 1"
proof -
  have run: "snd (listDirectoryContents [''root''] deepTree [] 1 0 10) = [item_b, item_c, item_a]"
    by (simp add: deepTree_def item_a_def item_b_def item_c_def walk_eval del: listLoop.simps)
  then have "item_c \<in> set (snd (listDirectoryContents [''root''] deepTree [] 1 0 10))"
    by simp
  from maxDepth_one_bounds_depth[OF this] run show ?thesis by simp
qed

text \<open>
  Claim C1. The doc comment of \<open>listDirectoryContents\<close> says of \<open>maxDepth\<close> that
  \<open>0 = unlimited\<close>, and the claim expects the nodes \<open>a\<close>, \<open>b\<close> and \<open>c\<close> for the sample tree.
  The guard \<open>currentDepth > maxDepth\<close> has no case for zero: with \<open>maxDepth = 0\<close> the walk
  returns the children of the scan root only, \<open>b\<close> before \<open>a\<close> with a total of 300, and \<open>c\<close>
  is not found (it is with \<open>maxDepth = 1\<close>).
\<close>

theorem maxDepth_zero_stops_at_children:
  "snd (listDirectoryContents [''root''] scenarioTree [] 0 0 2) = [item_b, item_a]
   \<and> item_c \<notin> set (snd (listDirectoryContents [''root''] scenarioTree [] 0 0 2))
   \<and> totalSizeOf (snd (listDirectoryContents [''root''] scenarioTree [] 0 0 2)) = 300
   \<and> item_c \<in> set (snd (listDirectoryContents [''root''] scenarioTree [] 1 0 3))"
  by (simp add: scenarioTree_def item_a_def item_b_def item_c_def walk_eval totalSizeOf_def
           del: listLoop.simps)

subsection \<open>Ranking\<close>






text \<open>The ranked lines are the last thing the root call prints, one per node it returns.\<close>

lemma report_lines_follow_list:
  "0 \<le> maxD \<Longrightarrow>
   \<exists>out. fst (listDirectoryContents dirPath node prefix maxD 0 topC) =
     out @ (Log, TopDirectoriesBySize topC)
           # rankedLines 0 (snd (listDirectoryContents dirPath node prefix maxD 0 topC))"
  by (simp add: listDirectoryContents.simps Let_def split: prod.splits sum.splits)



subsection \<open>The total\<close>

lemma sum_insertBy:
  "sum_list (map f (insertBy cmp x xs)) = (f x :: nat) + sum_list (map f xs)"
  by (induction xs) auto

lemma sum_sortBy: "sum_list (map f (sortBy cmp xs)) = sum_list (map (f :: 'a \<Rightarrow> nat) xs)"
  by (induction xs) (simp_all add: sortBy_def sum_insertBy)

lemma foldl_total: "foldl (\<lambda>sum dir. sum + size_bytes dir) acc xs = acc + sum_list (map size_bytes xs)"
  by (induction xs arbitrary: acc) simp_all

lemma totalSizeOf_sum: "totalSizeOf xs = sum_list (map size_bytes xs)"
  by (simp add: totalSizeOf_def foldl_total)

lemma gds_valid:
  assumes "lookup w (orDefault (directory options) ''.'') = Some node"
    and "statSync node = Inr st" and "isDirectory st"
  shows "getDirectorySizes w options =
     ([(Log, ScanningDirectory (resolve w (orDefault (directory options) ''.''))),
       (Log, MaxDepthIs (orDefault (maxDepth options) 2)), (Log, BlankLine)]
      @ fst (listDirectoryContents (resolve w (orDefault (directory options) ''.'')) node []
               (orDefault (maxDepth options) 2) 0 (orDefault (topCount options) 10))
      @ [(Log, TotalDirectorySize (formatBytes (totalSizeOf (snd
            (listDirectoryContents (resolve w (orDefault (directory options) ''.'')) node []
               (orDefault (maxDepth options) 2) 0 (orDefault (topCount options) 10)))))),
         (Log, BlankLine), (Log, ScanCompleted)], True)"
proof -
  have ex: "existsSync (Some node)" using assms(2) by (cases node) simp_all
  show ?thesis
    using assms ex by (simp add: getDirectorySizes_def Let_def split: prod.splits)
qed

text \<open>
  What \<open>getDirectorySizes\<close> adds up is the list the root call of the walk returns, which
  \<open>slice(0, topCount)\<close> has cut already: the total printed is the sum over the first
  \<open>topCount\<close> nodes of the sorted list, and the sum over the discovered nodes only when
  \<open>topCount\<close> is at least their number.
\<close>

lemma total_is_sum_of_returned:
  assumes "lookup w (orDefault (directory options) ''.'') = Some node"
    and "statSync node = Inr st" and "isDirectory st"
  shows "snd (getDirectorySizes w options)
     \<and> (Log, TotalDirectorySize (formatBytes (sum_list (map size_bytes
           (slice0 (sortBy bySizeDescending
              (discovered (resolve w (orDefault (directory options) ''.'')) node []
                 (orDefault (maxDepth options) 2) (orDefault (topCount options) 10)))
              (orDefault (topCount options) 10))))))
        \<in> set (fst (getDirectorySizes w options))
     \<and> (int (length (discovered (resolve w (orDefault (directory options) ''.'')) node []
                 (orDefault (maxDepth options) 2) (orDefault (topCount options) 10)))
          \<le> orDefault (topCount options) 10 \<longrightarrow>
        sum_list (map size_bytes
           (slice0 (sortBy bySizeDescending
              (discovered (resolve w (orDefault (directory options) ''.'')) node []
                 (orDefault (maxDepth options) 2) (orDefault (topCount options) 10)))
              (orDefault (topCount options) 10)))
        = sum_list (map size_bytes (discovered (resolve w (orDefault (directory options) ''.'')) node []
                 (orDefault (maxDepth options) 2) (orDefault (topCount options) 10))))"
proof -
  let ?found = "discovered (resolve w (orDefault (directory options) ''.'')) node []
                 (orDefault (maxDepth options) 2) (orDefault (topCount options) 10)"
  have all: "slice0 (sortBy bySizeDescending ?found) (orDefault (topCount options) 10)
               = sortBy bySizeDescending ?found"
    if "int (length ?found) \<le> orDefault (topCount options) 10"
    using that by (simp add: slice0_all length_sortBy)
  show ?thesis
    using all by (simp add: gds_valid[OF assms] root_report totalSizeOf_sum sum_sortBy)
qed

text \<open>
  Claim C2. The comment of the source reads \<open>Calculate total size from the scanned
  directories\<close> and the line printed is labelled \<open>Total directory size\<close>, and the claim
  expects the sum over all discovered nodes whatever \<open>topCount\<close> is. The cut of the display
  reaches the total: on the sample tree with \<open>--topCount 1\<close> three nodes are discovered,
  with sizes that add up to 500, and the total printed is \<open>200 B\<close>, the size of the one
  node listed.
\<close>

theorem total_is_truncated_by_topCount:
  "snd (getDirectorySizes sampleWorld topOneOptions)
   \<and> sum_list (map size_bytes (discovered [''root''] scenarioTree [] 2 1)) = 500
   \<and> formatBytes 500 = ''500 B''
   \<and> fst (getDirectorySizes sampleWorld topOneOptions) =
       [(Log, ScanningDirectory [''root'']), (Log, MaxDepthIs 2), (Log, BlankLine),
        (Log, TopDirectoriesBySize 1), (Log, RankedLine 1 0 ''b'' ''200 B''),
        (Log, TotalDirectorySize ''200 B''), (Log, BlankLine), (Log, ScanCompleted)]"
proof -
  have l: "lookup sampleWorld (orDefault (directory topOneOptions) ''.'') = Some scenarioTree"
    by (simp add: sampleWorld_def topOneOptions_def orDefault_def)
  have s: "statSync scenarioTree = Inr (Stats True 0)" by (simp add: scenarioTree_def)
  have found: "discovered [''root''] scenarioTree [] 2 1 = [item_a, item_b, item_c]"
    by (simp add: discovered_def scenarioTree_def item_a_def item_b_def item_c_def walk_eval
             del: listLoop.simps)
  have fb: "formatBytes 200 = ''200 B''" "formatBytes 500 = ''500 B''"
    by (simp_all add: formatBytes_eval)
  have run: "listDirectoryContents [''root''] scenarioTree [] 2 0 1 =
       ([(Log, TopDirectoriesBySize 1), (Log, RankedLine 1 0 ''b'' ''200 B'')], [item_b])"
    by (simp add: listDirectoryContents.simps scenarioTree_def item_b_def sortBy_def slice0_def
                  bySizeDescending_def fb)
  show ?thesis
    using gds_valid[OF l s] 
    by (simp add: sampleWorld_def topOneOptions_def orDefault_def found run fb item_a_def item_b_def
                  item_c_def totalSizeOf_def)
qed

section \<open>Properties of formatBytes and getSize\<close>

lemma formatBytes_examples:
  "formatBytes 0 = ''0 B''" "formatBytes 1536 = ''1.5 KB''" "formatBytes 1048576 = ''1 MB''"
  by (simp_all add: formatBytes_eval)

lemma exactLogK_bounds:
  "0 < n \<Longrightarrow> 1024 ^ exactLogK n \<le> n \<and> n < 1024 ^ Suc (exactLogK n)"
proof (induction n rule: exactLogK.induct)
  case (1 bytes)
  show ?case
  proof (cases "bytes < 1024")
    case True
    with 1 show ?thesis by (simp add: exactLogK.simps[of bytes])
  next
    case False
    then have pos: "0 < bytes div 1024" by simp
    from 1(1)[OF False pos] have IH: "1024 ^ exactLogK (bytes div 1024) \<le> bytes div 1024"
       "bytes div 1024 < 1024 ^ Suc (exactLogK (bytes div 1024))" by auto
    have eq: "exactLogK bytes = Suc (exactLogK (bytes div 1024))"
      using False by (simp add: exactLogK.simps[of bytes])
    have "1024 * 1024 ^ exactLogK (bytes div 1024) \<le> 1024 * (bytes div 1024)"
      using IH(1) by simp
    also have "\<dots> \<le> bytes" by simp
    finally have a: "1024 * 1024 ^ exactLogK (bytes div 1024) \<le> bytes" .
    have "bytes < 1024 * (bytes div 1024 + 1)"
      by (metis dividend_less_times_div zero_less_numeral Suc_eq_plus1 mult_Suc_right)
    also have "\<dots> \<le> 1024 * 1024 ^ Suc (exactLogK (bytes div 1024))"
      using IH(2) by (simp del: power_Suc)
    finally have b: "bytes < 1024 * 1024 ^ Suc (exactLogK (bytes div 1024))" .
    show ?thesis using a b eq by simp
  qed
qed

lemma toFixed2_nearest:
  "0 < d \<Longrightarrow> 2 * d * toFixed2 bytes d \<le> 200 * bytes + d
          \<and> 200 * bytes + d < 2 * d * (toFixed2 bytes d + 1)"
proof -
  assume d: "0 < d"
  have "2 * d * ((200 * bytes + d) div (2 * d)) \<le> 200 * bytes + d" by simp
  moreover have "200 * bytes + d < 2 * d * ((200 * bytes + d) div (2 * d) + 1)"
    using d by (metis dividend_less_times_div Suc_eq_plus1 mult_Suc_right nat_0_less_mult_iff zero_less_numeral add.commute)
  ultimately show ?thesis by (simp add: toFixed2_def)
qed

lemma formatBytes_below_PB:
  assumes "0 < bytes" "bytes < 1024 ^ 5 - 3"
  shows "floorLogK bytes < 5
     \<and> k_base ^ floorLogK bytes \<le> bytes \<and> bytes < k_base ^ Suc (floorLogK bytes)
     \<and> formatBytes bytes =
         showHundredths (toFixed2 bytes (k_base ^ floorLogK bytes)) @ '' '' @ sizes ! floorLogK bytes"
proof -
  have e: "floorLogK bytes = exactLogK bytes" using assms(2) by (simp add: floorLogK_def)
  have b: "1024 ^ exactLogK bytes \<le> bytes" "bytes < 1024 ^ Suc (exactLogK bytes)"
    using exactLogK_bounds[OF assms(1)] by auto
  have "bytes < 1024 ^ 5" using assms(2) by simp
  with b(1) have "(1024::nat) ^ exactLogK bytes < 1024 ^ 5" by (rule le_less_trans)
  then have lt: "exactLogK bytes < 5"
    by (rule power_less_imp_less_exp[rotated]) simp
  show ?thesis
    using b lt assms(1) by (simp add: e formatBytes_def sizesAt_def sizes_def k_base_def Let_def)
qed

text \<open>The last three byte counts below \<open>1024 ^ 5\<close> already get the index 5.\<close>

lemma formatBytes_just_below_PB:
  "formatBytes (1024 ^ 5 - 1) = ''1 undefined''"
  by (simp add: formatBytes_eval)

text \<open>
  Claim C7. The three examples hold (\<open>formatBytes_examples\<close>), and below
  \<open>1024 ^ 5 - 3\<close> bytes the unit is the largest of the five with a scaled value of at least
  1 (\<open>formatBytes_below_PB\<close>). The array \<open>sizes\<close> ends at \<open>TB\<close> and the index is not
  clamped: where the index is 5, \<open>sizes[i]\<close> is \<open>undefined\<close>, and a size of \<open>2 ^ 51\<close> bytes is
  printed with no unit of the five.
\<close>

theorem formatBytes_past_TB:
  "floorLogK (2 ^ 51) = 5 \<and> sizesAt 5 = ''undefined'' \<and> formatBytes (2 ^ 51) = ''2 undefined''"
  by (simp add: formatBytes_eval)

lemma getSize_statable:
  "statSync node = Inr st \<Longrightarrow> \<exists>n. snd (getSize filePath node) = Inr n"
  by (cases node) (auto split: prod.splits option.splits)

lemma getSizeLoop_statable:
  assumes "\<forall>(item, child) \<in> set items. \<exists>st. statSync child = Inr st"
  shows "snd (getSizeLoop filePath items acc) =
           (acc + (\<Sum>(item, child) \<leftarrow> items. projr (snd (getSize (filePath @ [item]) child))), None)"
  using assms
proof (induction items arbitrary: acc)
  case Nil
  then show ?case by simp
next
  case (Cons a items)
  obtain item child where a: "a = (item, child)" by (cases a)
  obtain st where "statSync child = Inr st" using Cons.prems a by auto
  then obtain n where n: "snd (getSize (filePath @ [item]) child) = Inr n"
    using getSize_statable by blast
  have "snd (getSizeLoop filePath items (acc + n)) =
          (acc + n + (\<Sum>(item, child) \<leftarrow> items. projr (snd (getSize (filePath @ [item]) child))), None)"
    using Cons by simp
  then show ?case using n by (auto simp: a split: prod.splits sum.splits)
qed

lemma getSize_sums_statable_children:
  assumes "\<forall>(item, child) \<in> set items. \<exists>st. statSync child = Inr st"
  shows "snd (getSize filePath (Dir items)) =
           Inr (\<Sum>(item, child) \<leftarrow> items. projr (snd (getSize (filePath @ [item]) child)))"
  using getSizeLoop_statable[OF assms, of filePath 0]
  by (auto split: prod.splits option.splits)

text \<open>
  Claim C3. A child directory that cannot be listed adds 0 and a warning, and the sum goes
  on (\<open>getSize_sums_statable_children\<close>, and \<open>lockedChildDir\<close> below). The \<open>statSync\<close> of
  \<open>getSize\<close> is outside its \<open>try\<close>: when it throws for a child, the exception is caught by
  the \<open>try\<close> of the parent around the whole loop, the children after it are not added, and
  the warning names the parent. In \<open>brokenLinkDir\<close> the file \<open>f2\<close> of 50 bytes is lost.
\<close>

theorem getSize_stops_at_unstatable_child:
  "getSize [''t''] brokenLinkDir = ([(Warn, CannotReadDirectory [''t''] ''ENOENT'')], Inr 100)
   \<and> getSize [''t''] lockedChildDir =
       ([(Warn, CannotReadDirectory [''t'', ''L''] ''EACCES'')], Inr 150)"
  by (simp add: brokenLinkDir_def lockedChildDir_def)

section \<open>Properties of \<open>exec\<close>\<close>

subsection \<open>The dispatch set\<close>

lemma snd_getSubdirectories:
  "snd (getSubdirectories dirPath node maxD cur) =
     (if int cur > maxD then []
      else case readdirSync node of Inl msg \<Rightarrow> []
           | Inr items \<Rightarrow> snd (subdirLoop dirPath items maxD cur))"
  by (simp add: getSubdirectories.simps split: sum.splits)

lemma snd_subdirLoop_Cons:
  "snd (subdirLoop dirPath ((item, child) # rest) maxD cur) =
     (if isDirectoryNode child \<and> item \<notin> set skipDirs
      then (dirPath @ [item], child) # snd (getSubdirectories (dirPath @ [item]) child maxD (cur + 1))
      else [])
     @ snd (subdirLoop dirPath rest maxD cur)"
  by (simp add: Let_def isDirectoryNode_def split: sum.splits prod.splits)













lemma snd_subdirLoop_Nil: "snd (subdirLoop dirPath [] maxD cur) = []"
  by simp

lemmas subdir_eval =
  targetDirectories_def snd_getSubdirectories snd_subdirLoop_Cons snd_subdirLoop_Nil
  isDirectoryNode_def
  skipDirs_def hasPackageJson_def truthy_def

subsection \<open>Dispatch and summary\<close>

lemma snd_processAll:
  "snd (processAll run command absolutePath targets) =
     map (\<lambda>dir. (fst dir, drop (length absolutePath) (fst dir),
                  executeCommand run command (fst dir))) targets"
  by (induction targets) (auto simp: Let_def split: prod.splits)

lemma displayResults_counts:
  "snd (displayResults results (successCount, failureCount)) =
     (successCount + length (filter (\<lambda>r. success (snd (snd r))) results),
      failureCount + length (filter (\<lambda>r. \<not> success (snd (snd r))) results))"
proof (induction results arbitrary: successCount failureCount)
  case Nil
  then show ?case by simp
next
  case (Cons a results)
  obtain d relPath result where a: "a = (d, relPath, result)" by (cases a)
  show ?case
    using Cons[of "successCount + 1" failureCount] Cons[of successCount "failureCount + 1"]
    by (auto simp: a split: prod.splits)
qed

lemma existsSync_statable: "statSync node = Inr st \<Longrightarrow> existsSync (Some node)"
  by (cases node) simp_all

lemma existsSync_iff:
  "existsSync v = (\<exists>node st. v = Some node \<and> statSync node = Inr st)"
proof (cases v)
  case None
  then show ?thesis by simp
next
  case (Some node)
  then show ?thesis by (cases node) simp_all
qed

lemma execCommand_valid:
  assumes "lookup w (orDefault (directory options) ''.'') = Some node"
    and "statSync node = Inr st" and "isDirectory st"
  shows "snd (execCommand w run options)
     \<and> (Log, Summary (summaryText
               (fst (snd (displayResults (snd (processAll run (exec options)
                    (resolve w (orDefault (directory options) ''.''))
                    (targetDirectories (resolve w (orDefault (directory options) ''.'')) node
                       (orDefault (maxDepth options) 2) (packageName options)))) (0, 0))))
               (snd (snd (displayResults (snd (processAll run (exec options)
                    (resolve w (orDefault (directory options) ''.''))
                    (targetDirectories (resolve w (orDefault (directory options) ''.'')) node
                       (orDefault (maxDepth options) 2) (packageName options)))) (0, 0))))))
          \<in> set (fst (execCommand w run options))"
proof -
  have ex: "existsSync (Some node)" using assms(2) by (rule existsSync_statable)
  show ?thesis
    using assms ex by (simp add: execCommand_def Let_def split: prod.splits)
qed

text \<open>
  Claim C4. In a batch every target directory gets its result, computed from the outcome
  of the command in that directory alone, in the order of the targets whatever the other
  outcomes are; a command that fails gives \<open>success = false\<close> with the captured standard
  output (the message when there is none) and the failure message; and the summary line
  counts the targets whose command succeeded and those whose command failed.
\<close>

theorem exec_failures_are_isolated:
  assumes "lookup w (orDefault (directory options) ''.'') = Some node"
    and "statSync node = Inr st" and "isDirectory st"
  shows "snd (processAll run (exec options) (resolve w (orDefault (directory options) ''.''))
               (execTargets w node options))
           = map (\<lambda>dir. (fst dir,
                         drop (length (resolve w (orDefault (directory options) ''.''))) (fst dir),
                         executeCommand run (exec options) (fst dir)))
                 (execTargets w node options)
     \<and> (\<forall>dir \<in> set (execTargets w node options). \<forall>stdout msg.
           run (exec options) (Some (fst dir)) = Threw stdout msg \<longrightarrow>
           executeCommand run (exec options) (fst dir) =
             \<lparr>success = False,
              output_text = trim (case stdout of None \<Rightarrow> msg
                                  | Some s \<Rightarrow> if s \<noteq> [] then s else msg),
              error = Some msg\<rparr>)
     \<and> (Log, Summary (summaryText
           (length (filter (\<lambda>dir. success (executeCommand run (exec options) (fst dir)))
                      (execTargets w node options)))
           (length (filter (\<lambda>dir. \<not> success (executeCommand run (exec options) (fst dir)))
                      (execTargets w node options)))))
         \<in> set (fst (execCommand w run options))"
proof -
  have one: "executeCommand run (exec options) d =
             \<lparr>success = False,
              output_text = trim (case stdout of None \<Rightarrow> msg
                                  | Some s \<Rightarrow> if s \<noteq> [] then s else msg),
              error = Some msg\<rparr>"
    if "run (exec options) (Some d) = Threw stdout msg" for d stdout msg
    using that by (simp add: executeCommand_def Let_def)
  have counts: "snd (displayResults (snd (processAll run (exec options)
                    (resolve w (orDefault (directory options) ''.''))
                    (execTargets w node options))) (0, 0))
        = (length (filter (\<lambda>dir. success (executeCommand run (exec options) (fst dir)))
                      (execTargets w node options)),
           length (filter (\<lambda>dir. \<not> success (executeCommand run (exec options) (fst dir)))
                      (execTargets w node options)))"
    by (simp add: displayResults_counts snd_processAll comp_def)
  show ?thesis
    using execCommand_valid[OF assms, of run] one counts
    by (simp add: snd_processAll execTargets_def)
qed

lemmas trim_eval = trim_def isWhiteSpace_def

theorem exec_failures_are_isolated_witness:
  "execTargets sampleWorld scenarioTree childrenOnly
     = [([''root'', ''a''], Dir [(''f'', File 100)]),
        ([''root'', ''b''], Dir [(''c'', Dir [(''g'', File 200)])])]
   \<and> executeCommand failsInA ''npm test'' [''root'', ''a'']
       = \<lparr>success = False, output_text = ''partial'', error = Some ''Command failed: npm test''\<rparr>
   \<and> executeCommand failsInA ''npm test'' [''root'', ''b'']
       = \<lparr>success = True, output_text = ''ok'', error = None\<rparr>
   \<and> (Log, Summary ''Summary: 1 successful, 1 failed'')
       \<in> set (fst (execCommand sampleWorld failsInA childrenOnly))"
proof -
  have l: "lookup sampleWorld (orDefault (directory childrenOnly) ''.'') = Some scenarioTree"
    by (simp add: sampleWorld_def childrenOnly_def orDefault_def)
  have s: "statSync scenarioTree = Inr (Stats True 0)" by (simp add: scenarioTree_def)
  have t: "execTargets sampleWorld scenarioTree childrenOnly
     = [([''root'', ''a''], Dir [(''f'', File 100)]),
        ([''root'', ''b''], Dir [(''c'', Dir [(''g'', File 200)])])]"
    by (simp add: execTargets_def sampleWorld_def childrenOnly_def orDefault_def scenarioTree_def
                  subdir_eval del: subdirLoop.simps)
  have a: "executeCommand failsInA ''npm test'' [''root'', ''a'']
       = \<lparr>success = False, output_text = ''partial'', error = Some ''Command failed: npm test''\<rparr>"
    by (simp add: executeCommand_def failsInA_def trim_eval)
  have b: "executeCommand failsInA ''npm test'' [''root'', ''b'']
       = \<lparr>success = True, output_text = ''ok'', error = None\<rparr>"
    by (simp add: executeCommand_def failsInA_def trim_eval)
  have e: "exec childrenOnly = ''npm test''" by (simp add: childrenOnly_def)
  have "(Log, Summary ''Summary: 1 successful, 1 failed'')
       \<in> set (fst (execCommand sampleWorld failsInA childrenOnly))"
    using exec_failures_are_isolated[OF l s, of failsInA]
    by (simp add: t e a b summaryText_def showNat.simps)
  then show ?thesis using t a b by simp
qed

text \<open>
  Claim C10. \<open>execCommand\<close> returns true exactly when the target path denotes something
  that can be stat'ed and is a directory, whatever the commands do: the number of failed
  commands does not enter the result. In the model \<open>statSync\<close> cannot throw once
  \<open>existsSync\<close> has held, so no exception escapes the handler body.
\<close>

theorem execCommand_true_iff_valid_directory:
  "snd (execCommand w run options) =
     (\<exists>node st. lookup w (orDefault (directory options) ''.'') = Some node
                \<and> statSync node = Inr st \<and> isDirectory st)"
proof (cases "lookup w (orDefault (directory options) ''.'')")
  case None
  then show ?thesis by (simp add: execCommand_def Let_def)
next
  case (Some node)
  show ?thesis
  proof (cases "statSync node")
    case (Inl msg)
    then have "\<not> existsSync (Some node)" by (cases node) simp_all
    then show ?thesis using Some Inl by (simp add: execCommand_def Let_def)
  next
    case (Inr st)
    show ?thesis
    proof (cases "isDirectory st")
      case True
      then show ?thesis using execCommand_valid[OF Some Inr] Some Inr by simp
    next
      case False
      then show ?thesis using Some Inr existsSync_statable[OF Inr]
        by (simp add: execCommand_def Let_def)
    qed
  qed
qed

theorem execCommand_true_iff_valid_directory_witness:
  "snd (execCommand sampleWorld alwaysFails childrenOnly)
   \<and> executeCommand alwaysFails ''npm test'' [''root'', ''a'']
       = \<lparr>success = False, output_text = ''Command failed'', error = Some ''Command failed''\<rparr>
   \<and> executeCommand alwaysFails ''npm test'' [''root'', ''b'']
       = \<lparr>success = False, output_text = ''Command failed'', error = Some ''Command failed''\<rparr>"
proof -
  have l: "lookup sampleWorld (orDefault (directory childrenOnly) ''.'') = Some scenarioTree"
    by (simp add: sampleWorld_def childrenOnly_def orDefault_def)
  have s: "statSync scenarioTree = Inr (Stats True 0)" by (simp add: scenarioTree_def)
  have "snd (execCommand sampleWorld alwaysFails childrenOnly)"
    using execCommand_true_iff_valid_directory[of sampleWorld alwaysFails childrenOnly] l s
    by simp
  then show ?thesis
    by (simp add: executeCommand_def alwaysFails_def trim_eval)
qed


subsection \<open>The directories the command is dispatched to\<close>

lemma processingLines_append [simp]:
  "processingLines (xs @ ys) = processingLines xs @ processingLines ys"
  by (simp add: processingLines_def)

lemma resultLines_append [simp]:
  "resultLines (xs @ ys) = resultLines xs @ resultLines ys"
  by (simp add: resultLines_def)

lemma lines_Nil [simp]: "processingLines [] = []" "resultLines [] = []"
  by (simp_all add: processingLines_def resultLines_def)

lemma lines_Cons [simp]:
  "processingLines (e # es) = processingOf e @ processingLines es"
  "resultLines (e # es) = resultOf e @ resultLines es"
  by (simp_all add: processingLines_def resultLines_def)













section \<open>Properties of \<open>pack\<close>\<close>

lemma packCommand_valid:
  assumes "lookup w (orDefault (directory options) ''.'') = Some node"
    and "statSync node = Inr st" and "isDirectory st"
  shows "packCommand w files run options =
     ([(Log, BuildingAndPackingIn (resolve w (orDefault (directory options) ''.''))), (Log, BlankLine)]
      @ removeTarballs files @ [(Log, BlankLine)]
      @ fst (buildPackCopy files run (resolve w (orDefault (directory options) ''.''))),
      snd (buildPackCopy files run (resolve w (orDefault (directory options) ''.''))))"
  using assms existsSync_statable[OF assms(2)]
  by (simp add: packCommand_def Let_def split: prod.splits)

text \<open>
  Claim C9. When the build and the pack step succeed and a tarball is found, a clipboard
  write that fails does not fail the command: \<open>packCommand\<close> returns true, and after the
  error of \<open>copyToClipboard\<close> it prints the tarball path instead of the line that reports
  the copy.
\<close>

theorem clipboard_failure_is_not_fatal:
  assumes "lookup w (orDefault (directory options) ''.'') = Some node"
    and "statSync node = Inr st" and "isDirectory st"
    and "run ''pnpm run build'' (Some (resolve w (orDefault (directory options) ''.''))) = Returned built"
    and "run ''pnpm pack'' (Some (resolve w (orDefault (directory options) ''.''))) = Returned packed"
    and "findLatestTarball files (resolve w (orDefault (directory options) ''.''))
           = (outFind, Some tarballPath)"
    and "run (''echo '' @ [CHR 0x22] @ pathString tarballPath @ [CHR 0x22] @ '' | pbcopy'') None
           = Threw stdout msg"
  shows "snd (packCommand w files run options)
     \<and> (\<exists>before. fst (packCommand w files run options) =
           before @ [(Log, FoundTarball (last tarballPath)),
                     (Error, ErrorCopyingToClipboard msg),
                     (Log, TarballPath tarballPath),
                     (Log, BlankLine), (Log, PackCommandCompleted)])"
proof -
  have copy: "copyToClipboard run (pathString tarballPath) = ([(Error, ErrorCopyingToClipboard msg)], False)"
    using assms(7) by (simp add: copyToClipboard_def)
  have bpc: "\<exists>before. buildPackCopy files run (resolve w (orDefault (directory options) ''.'')) =
          (before @ [(Log, FoundTarball (last tarballPath)),
                     (Error, ErrorCopyingToClipboard msg),
                     (Log, TarballPath tarballPath),
                     (Log, BlankLine), (Log, PackCommandCompleted)], True)"
    using assms(4,5,6) copy
    by (simp add: buildPackCopy_def executeCommandPack_def Let_def)
  then obtain before where b: "buildPackCopy files run (resolve w (orDefault (directory options) ''.'')) =
          (before @ [(Log, FoundTarball (last tarballPath)),
                     (Error, ErrorCopyingToClipboard msg),
                     (Log, TarballPath tarballPath),
                     (Log, BlankLine), (Log, PackCommandCompleted)], True)" by blast
  show ?thesis
    unfolding packCommand_valid[OF assms(1,2,3)] b
    by (simp del: append_assoc add: append_assoc[symmetric])
qed

theorem clipboard_failure_is_not_fatal_witness:
  "findLatestTarball packFiles [''root''] = ([], Some [''root'', ''pkg-1.0.1.tgz''])
   \<and> snd (packCommand sampleWorld packFiles noClipboard \<lparr>directory = None\<rparr>)
   \<and> (\<exists>before. fst (packCommand sampleWorld packFiles noClipboard \<lparr>directory = None\<rparr>) =
           before @ [(Log, FoundTarball ''pkg-1.0.1.tgz''),
                     (Error, ErrorCopyingToClipboard ''pbcopy: command not found''),
                     (Log, TarballPath [''root'', ''pkg-1.0.1.tgz'']),
                     (Log, BlankLine), (Log, PackCommandCompleted)])"
proof -
  have l: "lookup sampleWorld (orDefault (directory \<lparr>directory = None\<rparr>) ''.'') = Some scenarioTree"
    by (simp add: sampleWorld_def orDefault_def)
  have s: "statSync scenarioTree = Inr (Stats True 0)" by (simp add: scenarioTree_def)
  have r: "resolve sampleWorld (orDefault (directory \<lparr>directory = None\<rparr>) ''.'') = [''root'']"
    by (simp add: sampleWorld_def)
  have f: "findLatestTarball packFiles [''root''] = ([], Some [''root'', ''pkg-1.0.1.tgz''])"
    by (simp add: findLatestTarball_def packFiles_def endsWith_def sortBy_def Let_def)
  have b: "noClipboard ''pnpm run build'' (Some [''root'']) = Returned ''done''"
     "noClipboard ''pnpm pack'' (Some [''root'']) = Returned ''done''"
    by (simp_all add: noClipboard_def)
  have c: "noClipboard (''echo '' @ [CHR 0x22] @ pathString [''root'', ''pkg-1.0.1.tgz''] @ [CHR 0x22] @ '' | pbcopy'') None
             = Threw None ''pbcopy: command not found''"
    by (simp add: noClipboard_def)
  from clipboard_failure_is_not_fatal[OF l s _ b[folded r] f[folded r] c] f
  show ?thesis by simp
qed

end
